theory Spec2Isabelle
  imports Main
begin

section \<open>The OMI transaction family handler\<close>

text \<open>
  A shallow embedding of \<^verbatim>\<open>sawtooth_omi/handler.py\<close>: address derivation, record
  decoding, the authorization check, the two domain validators and the transition
  function \<^verbatim>\<open>OMITransactionHandler.apply\<close>.

  Python's \<^verbatim>\<open>str\<close> is modelled by its UTF-8 encoding (a \<open>char list\<close>; a \<open>char\<close>
  is one byte), so \<^verbatim>\<open>name.encode('utf-8')\<close> is the identity and string equality is
  equality of the encodings. \<^verbatim>\<open>bytes\<close> is a \<open>char list\<close> as well. Every exception
  the source can raise is a value of \<open>error\<close>; a function that may raise returns
  \<open>error + 'a\<close> with \<open>Inl\<close> for the exception.
\<close>

subsection \<open>Data\<close>

type_synonym bytes = "char list"

datatype error =
    InvalidTransaction string
  | InternalError string
  | DecodeError
  | UnicodeDecodeError
  | KeyError string
  | UnboundLocalError
  | AttributeError

text \<open>
  Modelled from the spec: the protocol-buffer message classes \<^verbatim>\<open>Work\<close>,
  \<^verbatim>\<open>Recording\<close>, \<^verbatim>\<open>IndividualIdentity\<close> and \<^verbatim>\<open>OrganizationalIdentity\<close>
  (\<^verbatim>\<open>sawtooth_omi.protobuf\<close>) are generated code that is not among the sources.
  The handler reads \<^verbatim>\<open>title\<close> and \<^verbatim>\<open>pubkey\<close> of a work or recording and
  \<^verbatim>\<open>name\<close> and \<^verbatim>\<open>registering_pubkey\<close> of an identity. The specification adds
  that a work or recording carries optional songwriter and publisher references and
  split percentages; the handler never reads them.
\<close>

record work_fields =
  title :: string
  pubkey :: string
  songwriters :: "string list"
  publishers :: "string list"
  splits :: "nat list"

record identity_fields =
  name :: string
  registering_pubkey :: string

datatype obj =
    Work work_fields
  | Recording work_fields
  | IndividualIdentity identity_fields
  | OrganizationalIdentity identity_fields

text \<open>The decoded envelope parts the handler reads.\<close>

record transaction_header =
  signer_pubkey :: string

record omi_transaction_payload =
  payload_action :: string

text \<open>
  A transaction as the host hands it over: header bytes, payload bytes and the record
  bytes (\<^verbatim>\<open>transaction.data\<close>).
\<close>

record transaction =
  txn_header :: bytes
  txn_payload :: bytes
  txn_data :: bytes

text \<open>
  The libraries the handler calls are parameters of the model: the digest of
  \<^verbatim>\<open>hashlib.sha512(...).hexdigest()\<close>, and for each protocol-buffer class its
  \<^verbatim>\<open>ParseFromString\<close> and \<^verbatim>\<open>SerializeToString\<close>. A parse returns the message
  (\<open>Inr\<close>) or the exception it raises (\<open>Inl\<close>): \<^verbatim>\<open>DecodeError\<close> on bytes that
  are not the wire format, and whatever else the implementation lets escape, such as the
  \<^verbatim>\<open>UnicodeDecodeError\<close> of the pure-Python decoder on a string field that is not
  UTF-8.
\<close>

record env =
  sha512_hexdigest :: "bytes \<Rightarrow> string"
  parse_TransactionHeader :: "bytes \<Rightarrow> error + transaction_header"
  parse_OMITransactionPayload :: "bytes \<Rightarrow> error + omi_transaction_payload"
  parse_Work :: "bytes \<Rightarrow> error + work_fields"
  parse_Recording :: "bytes \<Rightarrow> error + work_fields"
  parse_IndividualIdentity :: "bytes \<Rightarrow> error + identity_fields"
  parse_OrganizationalIdentity :: "bytes \<Rightarrow> error + identity_fields"
  serialize_Work :: "work_fields \<Rightarrow> bytes"
  serialize_Recording :: "work_fields \<Rightarrow> bytes"
  serialize_IndividualIdentity :: "identity_fields \<Rightarrow> bytes"
  serialize_OrganizationalIdentity :: "identity_fields \<Rightarrow> bytes"

text \<open>
  The state capability of the host (\<^verbatim>\<open>state.get\<close>, \<^verbatim>\<open>state.set\<close>) as section 6
  of the specification describes it: \<^verbatim>\<open>get\<close> returns an entry for each requested
  address that holds a value, \<^verbatim>\<open>set\<close> returns the addresses actually written.
  \<open>contents\<close> is the flat address-to-bytes map, \<open>accepts\<close> says for which addresses
  the store honours a write, and \<open>set_calls\<close> logs every \<^verbatim>\<open>set\<close> request issued,
  honoured or not. A \<^verbatim>\<open>StateEntry\<close> is the pair of its address and its data.
\<close>

record state_store =
  contents :: "string \<Rightarrow> bytes option"
  accepts :: "string \<Rightarrow> bool"
  set_calls :: "(string \<times> bytes) list list"

definition state_get :: "state_store \<Rightarrow> string list \<Rightarrow> (string \<times> bytes) list" where
  "state_get state addresses =
     List.map_filter (\<lambda>a. map_option (\<lambda>d. (a, d)) (contents state a)) addresses"

definition state_set ::
  "state_store \<Rightarrow> (string \<times> bytes) list \<Rightarrow> string list \<times> state_store" where
  "state_set state entries =
     (let written = filter (\<lambda>e. accepts state (fst e)) entries
      in (map fst written,
          state\<lparr>contents := fold (\<lambda>e m. m(fst e \<mapsto> snd e)) written (contents state),
                set_calls := set_calls state @ [entries]\<rparr>))"

subsection \<open>Actions and addresses\<close>

definition WORK :: string where
  "WORK = ''SetWork''"

definition RECORDING :: string where
  "RECORDING = ''SetRecording''"

definition INDIVIDUAL :: string where
  "INDIVIDUAL = ''SetIndividualIdentity''"

definition ORGANIZATION :: string where
  "ORGANIZATION = ''SetOrganizationalIdentity''"

definition hash_name :: "env \<Rightarrow> string \<Rightarrow> string" where
  "hash_name env nm = sha512_hexdigest env nm"

definition FAMILY_NAME :: string where
  "FAMILY_NAME = ''OMI''"

text \<open>\<^verbatim>\<open>_hash_name(FAMILY_NAME)[:6]\<close>: the first six characters, fewer if the digest is shorter.\<close>

definition OMI_ADDRESS_PREFIX :: "env \<Rightarrow> string" where
  "OMI_ADDRESS_PREFIX env = take 6 (hash_name env FAMILY_NAME)"

text \<open>The dictionary lookup \<^verbatim>\<open>infixes[action]\<close> raises \<^verbatim>\<open>KeyError\<close> on any other action.\<close>

definition get_address_infix :: "string \<Rightarrow> error + string" where
  "get_address_infix action =
     (if action = WORK then Inr ''a0''
      else if action = RECORDING then Inr ''a1''
      else if action = INDIVIDUAL then Inr ''00''
      else if action = ORGANIZATION then Inr ''01''
      else Inl (KeyError action))"

text \<open>Attribute access on a message object: a class without the field raises.\<close>

fun attr_title :: "obj \<Rightarrow> error + string" where
  "attr_title (Work w) = Inr (title w)"
| "attr_title (Recording w) = Inr (title w)"
| "attr_title _ = Inl AttributeError"

fun attr_name :: "obj \<Rightarrow> error + string" where
  "attr_name (IndividualIdentity i) = Inr (name i)"
| "attr_name (OrganizationalIdentity i) = Inr (name i)"
| "attr_name _ = Inl AttributeError"

fun attr_pubkey :: "obj \<Rightarrow> error + string" where
  "attr_pubkey (Work w) = Inr (pubkey w)"
| "attr_pubkey (Recording w) = Inr (pubkey w)"
| "attr_pubkey _ = Inl AttributeError"

fun attr_registering_pubkey :: "obj \<Rightarrow> error + string" where
  "attr_registering_pubkey (IndividualIdentity i) = Inr (registering_pubkey i)"
| "attr_registering_pubkey (OrganizationalIdentity i) = Inr (registering_pubkey i)"
| "attr_registering_pubkey _ = Inl AttributeError"

text \<open>
  With an action outside the four, neither branch assigns \<^verbatim>\<open>key\<close> and the
  \<^verbatim>\<open>return\<close> raises \<^verbatim>\<open>UnboundLocalError\<close>.
\<close>

definition get_unique_key :: "obj \<Rightarrow> string \<Rightarrow> error + string" where
  "get_unique_key ob action =
     (if action = WORK \<or> action = RECORDING then attr_title ob
      else if action = INDIVIDUAL \<or> action = ORGANIZATION then attr_name ob
      else Inl UnboundLocalError)"

text \<open>
  \<^verbatim>\<open>s[-62:]\<close> is the last 62 characters of \<^verbatim>\<open>s\<close>, all of \<^verbatim>\<open>s\<close> when it is
  shorter; the truncating subtraction of \<open>nat\<close> gives exactly that.
\<close>

definition make_omi_address :: "env \<Rightarrow> obj \<Rightarrow> string \<Rightarrow> error + string" where
  "make_omi_address env ob action =
     (case get_address_infix action of
        Inl e \<Rightarrow> Inl e
      | Inr infx \<Rightarrow>
          (case get_unique_key ob action of
             Inl e \<Rightarrow> Inl e
           | Inr key \<Rightarrow>
               Inr (OMI_ADDRESS_PREFIX env @ infx
                    @ drop (length (hash_name env key) - 62) (hash_name env key))))"

subsection \<open>Objects and the transaction envelope\<close>

text \<open>
  \<^verbatim>\<open>obj_types[action]\<close> is looked up before the \<^verbatim>\<open>try\<close>, so an unknown action is a
  \<^verbatim>\<open>KeyError\<close>. The \<^verbatim>\<open>except\<close> clause names \<^verbatim>\<open>DecodeError\<close> alone: that
  exception becomes \<^verbatim>\<open>InvalidTransaction('Invalid action')\<close>, any other exception of
  the parse propagates as it is.
\<close>

definition parse_object :: "env \<Rightarrow> bytes \<Rightarrow> string \<Rightarrow> error + obj" where
  "parse_object env obj_string action =
     (if action = WORK then
        (case parse_Work env obj_string of
           Inr w \<Rightarrow> Inr (Work w)
         | Inl e \<Rightarrow>
             if e = DecodeError then Inl (InvalidTransaction ''Invalid action'') else Inl e)
      else if action = RECORDING then
        (case parse_Recording env obj_string of
           Inr w \<Rightarrow> Inr (Recording w)
         | Inl e \<Rightarrow>
             if e = DecodeError then Inl (InvalidTransaction ''Invalid action'') else Inl e)
      else if action = INDIVIDUAL then
        (case parse_IndividualIdentity env obj_string of
           Inr i \<Rightarrow> Inr (IndividualIdentity i)
         | Inl e \<Rightarrow>
             if e = DecodeError then Inl (InvalidTransaction ''Invalid action'') else Inl e)
      else if action = ORGANIZATION then
        (case parse_OrganizationalIdentity env obj_string of
           Inr i \<Rightarrow> Inr (OrganizationalIdentity i)
         | Inl e \<Rightarrow>
             if e = DecodeError then Inl (InvalidTransaction ''Invalid action'') else Inl e)
      else Inl (KeyError action))"

text \<open>
  Returns \<open>(action, obj, signer)\<close>. The two envelope parses are not guarded: what
  they raise propagates.
\<close>

definition unpack_transaction ::
  "env \<Rightarrow> transaction \<Rightarrow> error + (string \<times> obj \<times> string)" where
  "unpack_transaction env txn =
     (case parse_TransactionHeader env (txn_header txn) of
        Inl e \<Rightarrow> Inl e
      | Inr hdr \<Rightarrow>
          (case parse_OMITransactionPayload env (txn_payload txn) of
             Inl e \<Rightarrow> Inl e
           | Inr pl \<Rightarrow>
               (case parse_object env (txn_data txn) (payload_action pl) of
                  Inl e \<Rightarrow> Inl e
                | Inr ob \<Rightarrow> Inr (payload_action pl, ob, signer_pubkey hdr))))"

subsection \<open>Checks\<close>

text \<open>
  A message object is always truthy (the classes define neither \<^verbatim>\<open>__bool__\<close> nor
  \<^verbatim>\<open>__len__\<close>), so \<^verbatim>\<open>not state_obj\<close> holds exactly for \<^verbatim>\<open>None\<close>.
\<close>

definition check_authorization :: "obj option \<Rightarrow> string \<Rightarrow> string \<Rightarrow> error + unit" where
  "check_authorization state_obj action signer =
     (case state_obj of
        None \<Rightarrow> Inr ()
      | Some so \<Rightarrow>
          (case (if action = WORK \<or> action = RECORDING then attr_pubkey so
                 else if action = INDIVIDUAL \<or> action = ORGANIZATION
                   then attr_registering_pubkey so
                 else Inl UnboundLocalError) of
             Inl e \<Rightarrow> Inl e
           | Inr pk \<Rightarrow>
               if pk \<noteq> signer then Inl (InvalidTransaction ''Signing key mismatch'')
               else Inr ()))"

text \<open>The body of each validator is its docstring alone: it returns \<^verbatim>\<open>None\<close>.\<close>

definition check_split_sums :: "obj \<Rightarrow> string \<Rightarrow> error + unit" where
  "check_split_sums ob action = Inr ()"

definition check_references :: "obj \<Rightarrow> string \<Rightarrow> error + unit" where
  "check_references ob action = Inr ()"

subsection \<open>State access and the transition\<close>

text \<open>
  \<^verbatim>\<open>state_entries[0]\<close> on the empty list raises \<^verbatim>\<open>IndexError\<close>, the one exception
  the \<^verbatim>\<open>try\<close> catches; what \<^verbatim>\<open>_parse_object\<close> raises propagates.
\<close>

definition get_state_object ::
  "env \<Rightarrow> state_store \<Rightarrow> string \<Rightarrow> string \<Rightarrow> error + obj option" where
  "get_state_object env state address action =
     (case state_get state [address] of
        [] \<Rightarrow> Inr None
      | entry # _ \<Rightarrow>
          (case parse_object env (snd entry) action of
             Inl e \<Rightarrow> Inl e
           | Inr ob \<Rightarrow> Inr (Some ob)))"

fun SerializeToString :: "env \<Rightarrow> obj \<Rightarrow> bytes" where
  "SerializeToString env (Work w) = serialize_Work env w"
| "SerializeToString env (Recording w) = serialize_Recording env w"
| "SerializeToString env (IndividualIdentity i) = serialize_IndividualIdentity env i"
| "SerializeToString env (OrganizationalIdentity i) = serialize_OrganizationalIdentity env i"

definition set_state_object ::
  "env \<Rightarrow> state_store \<Rightarrow> string \<Rightarrow> obj \<Rightarrow> (error + unit) \<times> state_store" where
  "set_state_object env state address ob =
     (let obj_string = SerializeToString env ob;
          res = state_set state [(address, obj_string)]
      in if fst res = [] then (Inl (InternalError ''State error''), snd res)
         else (Inr (), snd res))"

text \<open>
  \<^verbatim>\<open>OMITransactionHandler.apply\<close>: the outcome and the store after the call. The
  store is passed on unchanged by every step but the last.
\<close>

definition apply_txn ::
  "env \<Rightarrow> transaction \<Rightarrow> state_store \<Rightarrow> (error + unit) \<times> state_store" where
  "apply_txn env txn state =
     (case unpack_transaction env txn of
        Inl e \<Rightarrow> (Inl e, state)
      | Inr (action, txn_obj, signer) \<Rightarrow>
          (case make_omi_address env txn_obj action of
             Inl e \<Rightarrow> (Inl e, state)
           | Inr address \<Rightarrow>
               (case get_state_object env state address action of
                  Inl e \<Rightarrow> (Inl e, state)
                | Inr state_obj \<Rightarrow>
                    (case check_authorization state_obj action signer of
                       Inl e \<Rightarrow> (Inl e, state)
                     | Inr _ \<Rightarrow>
                         (case check_split_sums txn_obj action of
                            Inl e \<Rightarrow> (Inl e, state)
                          | Inr _ \<Rightarrow>
                              (case check_references txn_obj action of
                                 Inl e \<Rightarrow> (Inl e, state)
                               | Inr _ \<Rightarrow>
                                   set_state_object env state address txn_obj))))))"

subsection \<open>A reference environment for concrete runs\<close>

text \<open>
  A small stand-in for the libraries, used to run the handler on concrete inputs. The
  digest pads a nibble-wise image of its input with leading zeros to 128 lower-case
  hexadecimal characters. The wire format separates fields by \<open>;\<close> and list items by
  \<open>,\<close>; a split percentage is one byte. A header is \<open>signer;nonce\<close>, a payload is
  the action tag. Bytes with the wrong number of fields raise \<^verbatim>\<open>DecodeError\<close>; a
  title, name or key holding the byte \<open>0xFF\<close>, which no UTF-8 text contains, raises
  \<^verbatim>\<open>UnicodeDecodeError\<close>.
\<close>

definition demo_hexdigit :: "char \<Rightarrow> char" where
  "demo_hexdigit c = ''0123456789abcdef'' ! (of_char c mod 16)"

definition demo_digest :: "string \<Rightarrow> string" where
  "demo_digest s = replicate (128 - length s) CHR ''0'' @ take 128 (map demo_hexdigit s)"

fun split_on :: "char \<Rightarrow> string \<Rightarrow> string list" where
  "split_on c [] = [[]]"
| "split_on c (x # xs) =
     (if x = c then [] # split_on c xs
      else (case split_on c xs of [] \<Rightarrow> [[x]] | r # rs \<Rightarrow> (x # r) # rs))"

fun join_with :: "char \<Rightarrow> string list \<Rightarrow> string" where
  "join_with c [] = []"
| "join_with c [s] = s"
| "join_with c (s # ss) = s @ c # join_with c ss"

definition demo_parse_names :: "string \<Rightarrow> string list" where
  "demo_parse_names s = (if s = [] then [] else split_on CHR '','' s)"

definition demo_utf8 :: "string \<Rightarrow> bool" where
  "demo_utf8 s = (CHR 0xFF \<notin> set s)"

definition demo_parse_work :: "bytes \<Rightarrow> error + work_fields" where
  "demo_parse_work d =
     (case split_on CHR '';'' d of
        [t, k, sw, pb, sp] \<Rightarrow>
          if demo_utf8 t \<and> demo_utf8 k then
            Inr \<lparr>title = t, pubkey = k, songwriters = demo_parse_names sw,
                 publishers = demo_parse_names pb, splits = map of_char sp\<rparr>
          else Inl UnicodeDecodeError
      | _ \<Rightarrow> Inl DecodeError)"

definition demo_serialize_work :: "work_fields \<Rightarrow> bytes" where
  "demo_serialize_work w =
     join_with CHR '';''
       [title w, pubkey w, join_with CHR '','' (songwriters w),
        join_with CHR '','' (publishers w), map char_of (splits w)]"

definition demo_parse_identity :: "bytes \<Rightarrow> error + identity_fields" where
  "demo_parse_identity d =
     (case split_on CHR '';'' d of
        [n, k] \<Rightarrow>
          if demo_utf8 n \<and> demo_utf8 k then Inr \<lparr>name = n, registering_pubkey = k\<rparr>
          else Inl UnicodeDecodeError
      | _ \<Rightarrow> Inl DecodeError)"

definition demo_serialize_identity :: "identity_fields \<Rightarrow> bytes" where
  "demo_serialize_identity i = join_with CHR '';'' [name i, registering_pubkey i]"

definition demo_parse_header :: "bytes \<Rightarrow> error + transaction_header" where
  "demo_parse_header h =
     (case split_on CHR '';'' h of
        [s, nonce] \<Rightarrow> Inr \<lparr>signer_pubkey = s\<rparr>
      | _ \<Rightarrow> Inl DecodeError)"

definition demo_parse_payload :: "bytes \<Rightarrow> error + omi_transaction_payload" where
  "demo_parse_payload p = (if p = [] then Inl DecodeError else Inr \<lparr>payload_action = p\<rparr>)"

definition demo_env :: env where
  "demo_env =
     \<lparr>sha512_hexdigest = demo_digest,
      parse_TransactionHeader = demo_parse_header,
      parse_OMITransactionPayload = demo_parse_payload,
      parse_Work = demo_parse_work,
      parse_Recording = demo_parse_work,
      parse_IndividualIdentity = demo_parse_identity,
      parse_OrganizationalIdentity = demo_parse_identity,
      serialize_Work = demo_serialize_work,
      serialize_Recording = demo_serialize_work,
      serialize_IndividualIdentity = demo_serialize_identity,
      serialize_OrganizationalIdentity = demo_serialize_identity\<rparr>"

text \<open>An empty store that honours every write, and one that honours none.\<close>

definition demo_store :: state_store where
  "demo_store = \<lparr>contents = (\<lambda>a. None), accepts = (\<lambda>a. True), set_calls = []\<rparr>"

definition demo_locked_store :: state_store where
  "demo_locked_store = \<lparr>contents = (\<lambda>a. None), accepts = (\<lambda>a. False), set_calls = []\<rparr>"

definition demo_store_with :: "string \<Rightarrow> bytes \<Rightarrow> state_store" where
  "demo_store_with address d =
     demo_store\<lparr>contents := (contents demo_store)(address \<mapsto> d)\<rparr>"

definition demo_txn :: "string \<Rightarrow> string \<Rightarrow> string \<Rightarrow> bytes \<Rightarrow> transaction" where
  "demo_txn signer nonce action d =
     \<lparr>txn_header = signer @ '';'' @ nonce, txn_payload = action, txn_data = d\<rparr>"

text \<open>
  A work whose splits add up to 100, the same work with splits adding up to 95, and an
  identity registered under the key \<open>K1\<close>.
\<close>

definition demo_work_ok :: work_fields where
  "demo_work_ok =
     \<lparr>title = ''Song'', pubkey = ''K1'', songwriters = [''alice''], publishers = [],
      splits = [40, 35, 25]\<rparr>"

definition demo_work_bad :: work_fields where
  "demo_work_bad =
     \<lparr>title = ''Song'', pubkey = ''K1'', songwriters = [''alice''], publishers = [],
      splits = [40, 35, 20]\<rparr>"

definition demo_alice :: identity_fields where
  "demo_alice = \<lparr>name = ''alice'', registering_pubkey = ''K1''\<rparr>"

text \<open>The addresses the reference environment derives for these records.\<close>

definition demo_song_address :: string where
  "demo_song_address = ''000000a0'' @ replicate 58 CHR ''0'' @ ''3fe7''"

definition demo_song_recording_address :: string where
  "demo_song_recording_address = ''000000a1'' @ replicate 58 CHR ''0'' @ ''3fe7''"

definition demo_alice_address :: string where
  "demo_alice_address = ''00000000'' @ replicate 57 CHR ''0'' @ ''1c935''"

text \<open>Stored bytes of five fields whose title is the single byte \<open>0xFF\<close>.\<close>

definition demo_not_utf8 :: bytes where
  "demo_not_utf8 = CHR 0xFF # '';K1;;;''"

section \<open>Properties\<close>

subsection \<open>Auxiliary facts\<close>

lemma actions_distinct:
  "WORK \<noteq> RECORDING" "WORK \<noteq> INDIVIDUAL" "WORK \<noteq> ORGANIZATION"
  "RECORDING \<noteq> INDIVIDUAL" "RECORDING \<noteq> ORGANIZATION" "INDIVIDUAL \<noteq> ORGANIZATION"
  "RECORDING \<noteq> WORK" "INDIVIDUAL \<noteq> WORK" "ORGANIZATION \<noteq> WORK"
  "INDIVIDUAL \<noteq> RECORDING" "ORGANIZATION \<noteq> RECORDING" "ORGANIZATION \<noteq> INDIVIDUAL"
  by (simp_all add: WORK_def RECORDING_def INDIVIDUAL_def ORGANIZATION_def)

lemma demo_digest_length: "length (demo_digest s) = 128"
  by (simp add: demo_digest_def)

lemma demo_hexdigit_hex: "demo_hexdigit c \<in> set ''0123456789abcdef''"
  unfolding demo_hexdigit_def by (rule nth_mem) simp

lemma demo_digest_hex: "set (demo_digest s) \<subseteq> set ''0123456789abcdef''"
proof
  fix c
  assume "c \<in> set (demo_digest s)"
  then have "c = CHR ''0'' \<or> c \<in> set (take 128 (map demo_hexdigit s))"
    by (auto simp: demo_digest_def)
  then show "c \<in> set ''0123456789abcdef''"
  proof
    assume "c = CHR ''0''"
    then show ?thesis by simp
  next
    assume "c \<in> set (take 128 (map demo_hexdigit s))"
    then have "c \<in> set (map demo_hexdigit s)"
      by (rule in_set_takeD)
    then obtain x where "c = demo_hexdigit x"
      by auto
    then show ?thesis
      using demo_hexdigit_hex by simp
  qed
qed

lemma demo_env_digest:
  "\<forall>s. length (sha512_hexdigest demo_env s) = 128
       \<and> set (sha512_hexdigest demo_env s) \<subseteq> set ''0123456789abcdef''"
proof (intro allI conjI)
  fix s
  have eq: "sha512_hexdigest demo_env s = demo_digest s"
    by (simp add: demo_env_def)
  show "length (sha512_hexdigest demo_env s) = 128"
    by (simp only: eq demo_digest_length)
  show "set (sha512_hexdigest demo_env s) \<subseteq> set ''0123456789abcdef''"
    using demo_digest_hex[of s] by (simp only: eq)
qed

lemma parse_object_Inr:
  assumes "parse_object env d action = Inr ob"
  shows "(action = WORK \<and> (\<exists>w. ob = Work w \<and> parse_Work env d = Inr w))
       \<or> (action = RECORDING \<and> (\<exists>w. ob = Recording w \<and> parse_Recording env d = Inr w))
       \<or> (action = INDIVIDUAL
            \<and> (\<exists>i. ob = IndividualIdentity i \<and> parse_IndividualIdentity env d = Inr i))
       \<or> (action = ORGANIZATION
            \<and> (\<exists>i. ob = OrganizationalIdentity i \<and> parse_OrganizationalIdentity env d = Inr i))"
  using assms by (auto simp: parse_object_def split: if_splits sum.splits)

lemma state_get_single:
  "state_get state [address] =
     (case contents state address of None \<Rightarrow> [] | Some d \<Rightarrow> [(address, d)])"
  by (simp add: state_get_def List.map_filter_def split: option.splits)

lemma get_state_object_contents:
  "get_state_object env state address action =
     (case contents state address of
        None \<Rightarrow> Inr None
      | Some d \<Rightarrow>
          (case parse_object env d action of Inl e \<Rightarrow> Inl e | Inr ob \<Rightarrow> Inr (Some ob)))"
  by (simp add: get_state_object_def state_get_single split: option.splits)

lemma state_set_single:
  "state_set state [(address, d)] =
     (if accepts state address
      then ([address], state\<lparr>contents := (contents state)(address \<mapsto> d),
                              set_calls := set_calls state @ [[(address, d)]]\<rparr>)
      else ([], state\<lparr>contents := contents state,
                       set_calls := set_calls state @ [[(address, d)]]\<rparr>))"
  by (simp add: state_set_def)

lemma set_state_object_result:
  "set_state_object env state address ob =
     (if accepts state address
      then (Inr (), state\<lparr>contents := (contents state)(address \<mapsto> SerializeToString env ob),
                            set_calls := set_calls state
                              @ [[(address, SerializeToString env ob)]]\<rparr>)
      else (Inl (InternalError ''State error''),
            state\<lparr>contents := contents state,
                  set_calls := set_calls state @ [[(address, SerializeToString env ob)]]\<rparr>))"
  by (simp add: set_state_object_def state_set_single Let_def)

lemma apply_txn_after_load:
  assumes "unpack_transaction env txn = Inr (action, ob, signer)"
    and "make_omi_address env ob action = Inr address"
    and "get_state_object env state address action = Inr state_obj"
  shows "apply_txn env txn state =
           (case check_authorization state_obj action signer of
              Inl e \<Rightarrow> (Inl e, state)
            | Inr u \<Rightarrow> set_state_object env state address ob)"
  using assms
  by (simp add: apply_txn_def check_split_sums_def check_references_def split: sum.splits)

lemma check_authorization_matching:
  "check_authorization (Some (Work w)) WORK signer =
     (if pubkey w = signer then Inr () else Inl (InvalidTransaction ''Signing key mismatch''))"
  "check_authorization (Some (Recording w)) RECORDING signer =
     (if pubkey w = signer then Inr () else Inl (InvalidTransaction ''Signing key mismatch''))"
  "check_authorization (Some (IndividualIdentity i)) INDIVIDUAL signer =
     (if registering_pubkey i = signer then Inr ()
      else Inl (InvalidTransaction ''Signing key mismatch''))"
  "check_authorization (Some (OrganizationalIdentity i)) ORGANIZATION signer =
     (if registering_pubkey i = signer then Inr ()
      else Inl (InvalidTransaction ''Signing key mismatch''))"
  by (simp_all add: check_authorization_def actions_distinct)

text \<open>Runs of the reference environment that several properties below refer to.\<close>

lemma demo_unpack_work:
  "unpack_transaction demo_env (demo_txn ''K2'' ''n1'' WORK (demo_serialize_work demo_work_ok))
     = Inr (WORK, Work demo_work_ok, ''K2'')"
  by code_simp

lemma demo_unpack_alice:
  "unpack_transaction demo_env
       (demo_txn ''K2'' ''n1'' INDIVIDUAL (demo_serialize_identity demo_alice))
     = Inr (INDIVIDUAL, IndividualIdentity demo_alice, ''K2'')"
  by code_simp

lemma demo_address_song:
  "make_omi_address demo_env (Work demo_work_ok) WORK = Inr demo_song_address"
  by code_simp

lemma demo_address_alice:
  "make_omi_address demo_env (IndividualIdentity demo_alice) INDIVIDUAL
     = Inr demo_alice_address"
  by code_simp

lemma demo_prior_song:
  "get_state_object demo_env
       (demo_store_with demo_song_address (demo_serialize_work demo_work_ok))
       demo_song_address WORK
     = Inr (Some (Work demo_work_ok))"
  by code_simp

lemma demo_mismatch_outcome:
  "fst (apply_txn demo_env
          (demo_txn ''K2'' ''n1'' WORK (demo_serialize_work demo_work_ok))
          (demo_store_with demo_song_address (demo_serialize_work demo_work_ok)))
     = Inl (InvalidTransaction ''Signing key mismatch'')"
  by code_simp

lemma demo_unpack_bad:
  "unpack_transaction demo_env
       (demo_txn ''K1'' ''n1'' WORK (demo_serialize_work demo_work_bad))
     = Inr (WORK, Work demo_work_bad, ''K1'')"
  by code_simp

text \<open>
  A run that leaves a store different from the one it started with went through every
  check and ended in the commit.
\<close>

lemma apply_txn_changed:
  assumes "snd (apply_txn env txn state) \<noteq> state"
  shows "\<exists>action ob signer address state_obj.
           unpack_transaction env txn = Inr (action, ob, signer)
           \<and> make_omi_address env ob action = Inr address
           \<and> get_state_object env state address action = Inr state_obj
           \<and> check_authorization state_obj action signer = Inr ()
           \<and> check_split_sums ob action = Inr ()
           \<and> check_references ob action = Inr ()
           \<and> apply_txn env txn state = set_state_object env state address ob"
proof (cases "unpack_transaction env txn")
  case (Inl e1)
  with assms show ?thesis
    by (simp add: apply_txn_def)
next
  case (Inr t)
  obtain action ob signer where t: "t = (action, ob, signer)"
    by (cases t) auto
  note u = Inr[unfolded t]
  show ?thesis
  proof (cases "make_omi_address env ob action")
    case (Inl e1)
    with assms u show ?thesis
      by (simp add: apply_txn_def)
  next
    case a: (Inr address)
    show ?thesis
    proof (cases "get_state_object env state address action")
      case (Inl e1)
      with assms u a show ?thesis
        by (simp add: apply_txn_def)
    next
      case g: (Inr state_obj)
      note step = apply_txn_after_load[OF u a g]
      show ?thesis
      proof (cases "check_authorization state_obj action signer")
        case (Inl e1)
        with assms step show ?thesis
          by simp
      next
        case (Inr x)
        with step have "apply_txn env txn state = set_state_object env state address ob"
          by simp
        with u a g Inr show ?thesis
          by (simp add: check_split_sums_def check_references_def)
      qed
    qed
  qed
qed

subsection \<open>Address derivation\<close>

text \<open>
  C5. Provided the digest function returns 128 hexadecimal characters, as SHA-512's hex
  digest does: the namespace prefix is the first 6 characters of the digest of the
  family name; for each of the four actions and a record of its class the address is
  the prefix, then the action's two characters (\<open>a0\<close> for SetWork, \<open>a1\<close> for
  SetRecording, \<open>00\<close> for SetIndividualIdentity, \<open>01\<close> for
  SetOrganizationalIdentity), then the last 62 characters of the digest of the natural
  key (the title of a work or recording, the name of an identity); and every address
  the function returns has 70 characters, all hexadecimal.
\<close>

theorem make_omi_address_layout:
  assumes dig: "\<forall>s. length (sha512_hexdigest env s) = 128
                  \<and> set (sha512_hexdigest env s) \<subseteq> set ''0123456789abcdef''"
  shows "OMI_ADDRESS_PREFIX env = take 6 (hash_name env FAMILY_NAME)
     \<and> length (OMI_ADDRESS_PREFIX env) = 6
     \<and> make_omi_address env (Work w) WORK
         = Inr (OMI_ADDRESS_PREFIX env @ ''a0'' @ drop 66 (hash_name env (title w)))
     \<and> make_omi_address env (Recording w) RECORDING
         = Inr (OMI_ADDRESS_PREFIX env @ ''a1'' @ drop 66 (hash_name env (title w)))
     \<and> make_omi_address env (IndividualIdentity i) INDIVIDUAL
         = Inr (OMI_ADDRESS_PREFIX env @ ''00'' @ drop 66 (hash_name env (name i)))
     \<and> make_omi_address env (OrganizationalIdentity i) ORGANIZATION
         = Inr (OMI_ADDRESS_PREFIX env @ ''01'' @ drop 66 (hash_name env (name i)))
     \<and> length (hash_name env k) = 128
     \<and> length (drop 66 (hash_name env k)) = 62
     \<and> (\<forall>ob action a. make_omi_address env ob action = Inr a
           \<longrightarrow> length a = 70 \<and> set a \<subseteq> set ''0123456789abcdef'')"
proof -
  have len: "\<And>s. length (hash_name env s) = 128"
    using dig by (simp add: hash_name_def)
  have hex: "\<And>s. set (hash_name env s) \<subseteq> set ''0123456789abcdef''"
    using dig by (simp add: hash_name_def)
  have pre: "length (OMI_ADDRESS_PREFIX env) = 6"
    by (simp add: OMI_ADDRESS_PREFIX_def len)
  have prehex: "set (OMI_ADDRESS_PREFIX env) \<subseteq> set ''0123456789abcdef''"
    unfolding OMI_ADDRESS_PREFIX_def using hex set_take_subset by fastforce
  have sufhex: "\<And>s. set (drop 66 (hash_name env s)) \<subseteq> set ''0123456789abcdef''"
    using hex set_drop_subset by fastforce
  have w: "make_omi_address env (Work w) WORK
         = Inr (OMI_ADDRESS_PREFIX env @ ''a0'' @ drop 66 (hash_name env (title w)))"
    by (simp add: make_omi_address_def get_address_infix_def get_unique_key_def len)
  have r: "make_omi_address env (Recording w) RECORDING
         = Inr (OMI_ADDRESS_PREFIX env @ ''a1'' @ drop 66 (hash_name env (title w)))"
    by (simp add: make_omi_address_def get_address_infix_def get_unique_key_def len
          actions_distinct)
  have i: "make_omi_address env (IndividualIdentity i) INDIVIDUAL
         = Inr (OMI_ADDRESS_PREFIX env @ ''00'' @ drop 66 (hash_name env (name i)))"
    by (simp add: make_omi_address_def get_address_infix_def get_unique_key_def len
          actions_distinct)
  have org: "make_omi_address env (OrganizationalIdentity i) ORGANIZATION
         = Inr (OMI_ADDRESS_PREFIX env @ ''01'' @ drop 66 (hash_name env (name i)))"
    by (simp add: make_omi_address_def get_address_infix_def get_unique_key_def len
          actions_distinct)
  have all: "length a = 70 \<and> set a \<subseteq> set ''0123456789abcdef''"
    if "make_omi_address env ob action = Inr a" for ob action a
  proof -
    from that obtain infx key where
      ix: "get_address_infix action = Inr infx" and
      a: "a = OMI_ADDRESS_PREFIX env @ infx @ drop 66 (hash_name env key)"
      by (auto simp: make_omi_address_def len split: sum.splits)
    from ix have "infx \<in> {''a0'', ''a1'', ''00'', ''01''}"
      by (auto simp: get_address_infix_def split: if_splits)
    then have "length infx = 2 \<and> set infx \<subseteq> set ''0123456789abcdef''"
      by auto
    then show ?thesis
      using a pre prehex sufhex[of key] len[of key] by auto
  qed
  show ?thesis
    using pre w r i org all len[of k] by (simp add: OMI_ADDRESS_PREFIX_def)
qed

text \<open>
  In the reference environment the work titled \<open>Song\<close> gets the address computed by
  hand above, of 70 characters.
\<close>

theorem make_omi_address_layout_witness:
  "(\<forall>s. length (sha512_hexdigest demo_env s) = 128
        \<and> set (sha512_hexdigest demo_env s) \<subseteq> set ''0123456789abcdef'')
   \<and> make_omi_address demo_env (Work demo_work_ok) WORK = Inr demo_song_address
   \<and> OMI_ADDRESS_PREFIX demo_env = ''000000''
   \<and> length demo_song_address = 70"
proof -
  note layout = make_omi_address_layout[OF demo_env_digest, of demo_work_ok demo_alice "''Song''"]
  have a: "make_omi_address demo_env (Work demo_work_ok) WORK = Inr demo_song_address"
    by code_simp
  have p: "OMI_ADDRESS_PREFIX demo_env = ''000000''"
    by code_simp
  from layout a have "length demo_song_address = 70"
    by blast
  with a p demo_env_digest show ?thesis
    by blast
qed

text \<open>
  C9. For a digest of 128 characters, a work and a recording with the same title get
  different addresses: the two characters after the prefix are \<open>a0\<close> for the work
  and \<open>a1\<close> for the recording, while the last 62 characters of both addresses are
  the same, namely the last 62 characters of the digest of the title.
\<close>

theorem work_recording_addresses_distinct:
  assumes "length (sha512_hexdigest env key) = 128"
    and "title w = key" and "title r = key"
  shows "\<exists>a b. make_omi_address env (Work w) WORK = Inr a
             \<and> make_omi_address env (Recording r) RECORDING = Inr b
             \<and> a \<noteq> b
             \<and> drop (length a - 62) a = drop (length b - 62) b
             \<and> drop (length a - 62) a = drop 66 (hash_name env key)
             \<and> take 2 (drop (length (OMI_ADDRESS_PREFIX env)) a) = ''a0''
             \<and> take 2 (drop (length (OMI_ADDRESS_PREFIX env)) b) = ''a1''"
proof -
  have len: "length (hash_name env key) = 128"
    using assms(1) by (simp add: hash_name_def)
  have a: "make_omi_address env (Work w) WORK
             = Inr (OMI_ADDRESS_PREFIX env @ ''a0'' @ drop 66 (hash_name env key))"
    using assms(2) len
    by (simp add: make_omi_address_def get_address_infix_def get_unique_key_def)
  have b: "make_omi_address env (Recording r) RECORDING
             = Inr (OMI_ADDRESS_PREFIX env @ ''a1'' @ drop 66 (hash_name env key))"
    using assms(3) len
    by (simp add: make_omi_address_def get_address_infix_def get_unique_key_def
          actions_distinct)
  show ?thesis
    unfolding a b using len by simp
qed

text \<open>
  In the reference environment, the work and the recording titled \<open>Song\<close>.
\<close>

theorem work_recording_addresses_distinct_witness:
  "length (sha512_hexdigest demo_env ''Song'') = 128
   \<and> title demo_work_ok = ''Song''
   \<and> make_omi_address demo_env (Work demo_work_ok) WORK = Inr demo_song_address
   \<and> make_omi_address demo_env (Recording demo_work_ok) RECORDING
       = Inr demo_song_recording_address
   \<and> demo_song_address \<noteq> demo_song_recording_address
   \<and> drop (length demo_song_address - 62) demo_song_address
       = drop (length demo_song_recording_address - 62) demo_song_recording_address"
proof -
  have len: "length (sha512_hexdigest demo_env ''Song'') = 128"
    using demo_env_digest by blast
  have t: "title demo_work_ok = ''Song''"
    by (simp add: demo_work_ok_def)
  have rec: "make_omi_address demo_env (Recording demo_work_ok) RECORDING
       = Inr demo_song_recording_address"
    by code_simp
  from work_recording_addresses_distinct[OF len t t] demo_address_song rec
  have "demo_song_address \<noteq> demo_song_recording_address
       \<and> drop (length demo_song_address - 62) demo_song_address
       = drop (length demo_song_recording_address - 62) demo_song_recording_address"
    by auto
  with len t demo_address_song rec show ?thesis
    by blast
qed

subsection \<open>Authorization\<close>

text \<open>
  C3. With no prior record the authorization check passes for every action and
  signer. With a prior record of the class the action selects it passes exactly when
  the owner field equals the signer, \<^verbatim>\<open>pubkey\<close> for a work or recording and
  \<^verbatim>\<open>registering_pubkey\<close> for an identity, and raises
  \<^verbatim>\<open>InvalidTransaction('Signing key mismatch')\<close> otherwise. In
  \<^verbatim>\<open>apply\<close>, where the prior record is decoded with the incoming action: without a
  prior record the run goes on to the commit; with one it goes on to the commit when
  the owner equals the signer and otherwise fails with the mismatch error and the store
  as it was.
\<close>

theorem check_authorization_owner:
  "check_authorization None action signer = Inr ()
   \<and> check_authorization (Some (Work w)) WORK signer =
       (if pubkey w = signer then Inr ()
        else Inl (InvalidTransaction ''Signing key mismatch''))
   \<and> check_authorization (Some (Recording w)) RECORDING signer =
       (if pubkey w = signer then Inr ()
        else Inl (InvalidTransaction ''Signing key mismatch''))
   \<and> check_authorization (Some (IndividualIdentity i)) INDIVIDUAL signer =
       (if registering_pubkey i = signer then Inr ()
        else Inl (InvalidTransaction ''Signing key mismatch''))
   \<and> check_authorization (Some (OrganizationalIdentity i)) ORGANIZATION signer =
       (if registering_pubkey i = signer then Inr ()
        else Inl (InvalidTransaction ''Signing key mismatch''))
   \<and> (unpack_transaction env txn = Inr (act, ob, sg)
        \<and> make_omi_address env ob act = Inr address
        \<and> get_state_object env state address act = Inr None
      \<longrightarrow> apply_txn env txn state = set_state_object env state address ob)
   \<and> (unpack_transaction env txn = Inr (act, ob, sg)
        \<and> make_omi_address env ob act = Inr address
        \<and> get_state_object env state address act = Inr (Some prior)
      \<longrightarrow> apply_txn env txn state =
            (if (case prior of
                   Work p \<Rightarrow> pubkey p
                 | Recording p \<Rightarrow> pubkey p
                 | IndividualIdentity p \<Rightarrow> registering_pubkey p
                 | OrganizationalIdentity p \<Rightarrow> registering_pubkey p) = sg
             then set_state_object env state address ob
             else (Inl (InvalidTransaction ''Signing key mismatch''), state)))"
proof -
  have none: "check_authorization None action signer = Inr ()"
    by (simp add: check_authorization_def)
  have first: "apply_txn env txn state = set_state_object env state address ob"
    if "unpack_transaction env txn = Inr (act, ob, sg)"
      and "make_omi_address env ob act = Inr address"
      and "get_state_object env state address act = Inr None"
    using apply_txn_after_load[OF that] by (simp add: check_authorization_def)
  have later: "apply_txn env txn state =
            (if (case prior of
                   Work p \<Rightarrow> pubkey p
                 | Recording p \<Rightarrow> pubkey p
                 | IndividualIdentity p \<Rightarrow> registering_pubkey p
                 | OrganizationalIdentity p \<Rightarrow> registering_pubkey p) = sg
             then set_state_object env state address ob
             else (Inl (InvalidTransaction ''Signing key mismatch''), state))"
    if u: "unpack_transaction env txn = Inr (act, ob, sg)"
      and a: "make_omi_address env ob act = Inr address"
      and g: "get_state_object env state address act = Inr (Some prior)"
  proof -
    from g obtain d where "parse_object env d act = Inr prior"
      by (auto simp: get_state_object_contents split: option.splits sum.splits)
    from parse_object_Inr[OF this] show ?thesis
      using apply_txn_after_load[OF u a g]
      by (auto simp: check_authorization_matching)
  qed
  show ?thesis
    using none first later check_authorization_matching by blast
qed

text \<open>
  A work stored under the key \<open>K1\<close> and a transaction for the same title signed
  by \<open>K2\<close>.
\<close>

theorem check_authorization_owner_witness:
  "unpack_transaction demo_env
       (demo_txn ''K2'' ''n1'' WORK (demo_serialize_work demo_work_ok))
     = Inr (WORK, Work demo_work_ok, ''K2'')
   \<and> make_omi_address demo_env (Work demo_work_ok) WORK = Inr demo_song_address
   \<and> get_state_object demo_env
         (demo_store_with demo_song_address (demo_serialize_work demo_work_ok))
         demo_song_address WORK
       = Inr (Some (Work demo_work_ok))
   \<and> pubkey demo_work_ok = ''K1''
   \<and> apply_txn demo_env
         (demo_txn ''K2'' ''n1'' WORK (demo_serialize_work demo_work_ok))
         (demo_store_with demo_song_address (demo_serialize_work demo_work_ok))
       = (Inl (InvalidTransaction ''Signing key mismatch''),
          demo_store_with demo_song_address (demo_serialize_work demo_work_ok))"
proof -
  have k: "pubkey demo_work_ok = ''K1''"
    by (simp add: demo_work_ok_def)
  note auth = check_authorization_owner[where env = demo_env
      and txn = "demo_txn ''K2'' ''n1'' WORK (demo_serialize_work demo_work_ok)"
      and state = "demo_store_with demo_song_address (demo_serialize_work demo_work_ok)"
      and act = WORK and ob = "Work demo_work_ok" and sg = "''K2''"
      and address = demo_song_address and prior = "Work demo_work_ok"]
  from auth demo_unpack_work demo_address_song demo_prior_song
  have "apply_txn demo_env
         (demo_txn ''K2'' ''n1'' WORK (demo_serialize_work demo_work_ok))
         (demo_store_with demo_song_address (demo_serialize_work demo_work_ok))
       = (if (case Work demo_work_ok of
                   Work p \<Rightarrow> pubkey p
                 | Recording p \<Rightarrow> pubkey p
                 | IndividualIdentity p \<Rightarrow> registering_pubkey p
                 | OrganizationalIdentity p \<Rightarrow> registering_pubkey p) = ''K2''
             then set_state_object demo_env
               (demo_store_with demo_song_address (demo_serialize_work demo_work_ok))
               demo_song_address (Work demo_work_ok)
             else (Inl (InvalidTransaction ''Signing key mismatch''),
               demo_store_with demo_song_address (demo_serialize_work demo_work_ok)))"
    by blast
  then show ?thesis
    using k demo_unpack_work demo_address_song demo_prior_song by simp
qed

subsection \<open>Domain validators\<close>

text \<open>
  C1. The claim is that a work or recording whose splits do not add up to 100 is
  refused with \<^verbatim>\<open>InvalidTransaction\<close>, which is also what the docstring of
  \<^verbatim>\<open>_check_split_sums\<close> says. The function has no body: the run below submits a
  work with splits 40, 35 and 20, of sum 95, to an empty store; the check returns
  normally, \<^verbatim>\<open>apply\<close> succeeds and the record is stored.
\<close>

theorem check_split_sums_accepts_any_total:
  "unpack_transaction demo_env
       (demo_txn ''K1'' ''n1'' WORK (demo_serialize_work demo_work_bad))
     = Inr (WORK, Work demo_work_bad, ''K1'')
   \<and> splits demo_work_bad = [40, 35, 20]
   \<and> sum_list (splits demo_work_bad) = 95
   \<and> check_split_sums (Work demo_work_bad) WORK = Inr ()
   \<and> fst (apply_txn demo_env
            (demo_txn ''K1'' ''n1'' WORK (demo_serialize_work demo_work_bad)) demo_store)
     = Inr ()
   \<and> map_option (parse_Work demo_env)
       (contents
          (snd (apply_txn demo_env
                  (demo_txn ''K1'' ''n1'' WORK (demo_serialize_work demo_work_bad))
                  demo_store))
          demo_song_address)
     = Some (Inr demo_work_bad)"
proof -
  have s: "splits demo_work_bad = [40, 35, 20]"
    by (simp add: demo_work_bad_def)
  have t: "sum_list (splits demo_work_bad) = 95"
    by (simp add: demo_work_bad_def)
  have c: "check_split_sums (Work demo_work_bad) WORK = Inr ()"
    by (simp add: check_split_sums_def)
  have ok: "fst (apply_txn demo_env
            (demo_txn ''K1'' ''n1'' WORK (demo_serialize_work demo_work_bad)) demo_store)
     = Inr ()"
    by code_simp
  have stored: "map_option (parse_Work demo_env)
       (contents
          (snd (apply_txn demo_env
                  (demo_txn ''K1'' ''n1'' WORK (demo_serialize_work demo_work_bad))
                  demo_store))
          demo_song_address)
     = Some (Inr demo_work_bad)"
    by code_simp
  from demo_unpack_bad s t c ok stored show ?thesis
    by blast
qed

text \<open>
  C2. The claim is that a record naming an identity that is not in state is refused
  with \<^verbatim>\<open>InvalidTransaction\<close>, which is also what the docstring of
  \<^verbatim>\<open>_check_references\<close> says. The function has no body and is not even handed
  the store: the run below submits a work naming the songwriter \<open>alice\<close> to an empty
  store, where the address of the identity \<open>alice\<close> holds nothing; the check returns
  normally and \<^verbatim>\<open>apply\<close> succeeds.
\<close>

theorem check_references_accepts_unregistered:
  "unpack_transaction demo_env
       (demo_txn ''K2'' ''n1'' WORK (demo_serialize_work demo_work_ok))
     = Inr (WORK, Work demo_work_ok, ''K2'')
   \<and> songwriters demo_work_ok = [''alice'']
   \<and> make_omi_address demo_env (IndividualIdentity demo_alice) INDIVIDUAL
     = Inr demo_alice_address
   \<and> name demo_alice = ''alice''
   \<and> state_get demo_store [demo_alice_address] = []
   \<and> check_references (Work demo_work_ok) WORK = Inr ()
   \<and> fst (apply_txn demo_env
            (demo_txn ''K2'' ''n1'' WORK (demo_serialize_work demo_work_ok)) demo_store)
     = Inr ()"
proof -
  have s: "songwriters demo_work_ok = [''alice'']"
    by (simp add: demo_work_ok_def)
  have n: "name demo_alice = ''alice''"
    by (simp add: demo_alice_def)
  have g: "state_get demo_store [demo_alice_address] = []"
    by (simp add: state_get_single demo_store_def)
  have c: "check_references (Work demo_work_ok) WORK = Inr ()"
    by (simp add: check_references_def)
  have ok: "fst (apply_txn demo_env
            (demo_txn ''K2'' ''n1'' WORK (demo_serialize_work demo_work_ok)) demo_store)
     = Inr ()"
    by code_simp
  from demo_unpack_work s demo_address_alice n g c ok show ?thesis
    by blast
qed

subsection \<open>The transition\<close>

text \<open>
  C6. A failure of any step before the commit ends \<^verbatim>\<open>apply\<close> with that
  failure and the store it was given: decoding the envelope and the record, deriving
  the address, loading and decoding the prior record, and the authorization check (the
  two validators never fail). On every failure outcome the contents of the store are
  unchanged, and unless the failure is the commit's own
  \<^verbatim>\<open>InternalError('State error')\<close> the whole store is, its log of
  \<^verbatim>\<open>set\<close> requests included: no write was issued. A store that differs after
  the run means every check passed.
\<close>

theorem apply_txn_failure_no_write:
  "(unpack_transaction env txn = Inl e \<longrightarrow> apply_txn env txn state = (Inl e, state))
   \<and> (unpack_transaction env txn = Inr (action, ob, signer)
        \<and> make_omi_address env ob action = Inl e
      \<longrightarrow> apply_txn env txn state = (Inl e, state))
   \<and> (unpack_transaction env txn = Inr (action, ob, signer)
        \<and> make_omi_address env ob action = Inr address
        \<and> get_state_object env state address action = Inl e
      \<longrightarrow> apply_txn env txn state = (Inl e, state))
   \<and> (unpack_transaction env txn = Inr (action, ob, signer)
        \<and> make_omi_address env ob action = Inr address
        \<and> get_state_object env state address action = Inr state_obj
        \<and> check_authorization state_obj action signer = Inl e
      \<longrightarrow> apply_txn env txn state = (Inl e, state))
   \<and> (fst (apply_txn env txn state) = Inl e
      \<longrightarrow> contents (snd (apply_txn env txn state)) = contents state
        \<and> (e \<noteq> InternalError ''State error'' \<longrightarrow> snd (apply_txn env txn state) = state))
   \<and> (snd (apply_txn env txn state) \<noteq> state
      \<longrightarrow> (\<exists>action ob signer address state_obj.
            unpack_transaction env txn = Inr (action, ob, signer)
            \<and> make_omi_address env ob action = Inr address
            \<and> get_state_object env state address action = Inr state_obj
            \<and> check_authorization state_obj action signer = Inr ()
            \<and> check_split_sums ob action = Inr ()
            \<and> check_references ob action = Inr ()))"
proof -
  have early: "unpack_transaction env txn = Inl e \<longrightarrow> apply_txn env txn state = (Inl e, state)"
    by (simp add: apply_txn_def)
  have addr: "unpack_transaction env txn = Inr (action, ob, signer)
        \<and> make_omi_address env ob action = Inl e
      \<longrightarrow> apply_txn env txn state = (Inl e, state)"
    by (simp add: apply_txn_def)
  have load: "unpack_transaction env txn = Inr (action, ob, signer)
        \<and> make_omi_address env ob action = Inr address
        \<and> get_state_object env state address action = Inl e
      \<longrightarrow> apply_txn env txn state = (Inl e, state)"
    by (simp add: apply_txn_def)
  have auth: "unpack_transaction env txn = Inr (action, ob, signer)
        \<and> make_omi_address env ob action = Inr address
        \<and> get_state_object env state address action = Inr state_obj
        \<and> check_authorization state_obj action signer = Inl e
      \<longrightarrow> apply_txn env txn state = (Inl e, state)"
    by (simp add: apply_txn_def)
  have fail: "contents (snd (apply_txn env txn state)) = contents state
        \<and> (e \<noteq> InternalError ''State error'' \<longrightarrow> snd (apply_txn env txn state) = state)"
    if f: "fst (apply_txn env txn state) = Inl e"
  proof (cases "snd (apply_txn env txn state) = state")
    case True
    then show ?thesis by simp
  next
    case False
    from apply_txn_changed[OF False] obtain address ob where
      "apply_txn env txn state = set_state_object env state address ob"
      by blast
    with f False show ?thesis
      by (auto simp: set_state_object_result split: if_splits)
  qed
  have changed: "snd (apply_txn env txn state) \<noteq> state
      \<longrightarrow> (\<exists>action ob signer address state_obj.
            unpack_transaction env txn = Inr (action, ob, signer)
            \<and> make_omi_address env ob action = Inr address
            \<and> get_state_object env state address action = Inr state_obj
            \<and> check_authorization state_obj action signer = Inr ()
            \<and> check_split_sums ob action = Inr ()
            \<and> check_references ob action = Inr ())"
    using apply_txn_changed by blast
  from early addr load auth fail changed show ?thesis
    by blast
qed

text \<open>
  The transaction signed by the wrong key fails and returns the store it was given.
\<close>

theorem apply_txn_failure_no_write_witness:
  "fst (apply_txn demo_env
          (demo_txn ''K2'' ''n1'' WORK (demo_serialize_work demo_work_ok))
          (demo_store_with demo_song_address (demo_serialize_work demo_work_ok)))
     = Inl (InvalidTransaction ''Signing key mismatch'')
   \<and> snd (apply_txn demo_env
          (demo_txn ''K2'' ''n1'' WORK (demo_serialize_work demo_work_ok))
          (demo_store_with demo_song_address (demo_serialize_work demo_work_ok)))
     = demo_store_with demo_song_address (demo_serialize_work demo_work_ok)"
proof -
  note frame = apply_txn_failure_no_write[where env = demo_env
      and txn = "demo_txn ''K2'' ''n1'' WORK (demo_serialize_work demo_work_ok)"
      and state = "demo_store_with demo_song_address (demo_serialize_work demo_work_ok)"
      and e = "InvalidTransaction ''Signing key mismatch''"]
  from frame demo_mismatch_outcome show ?thesis
    by simp
qed

text \<open>
  C8. In the commit, when the \<^verbatim>\<open>set\<close> call returns no address the result is
  \<^verbatim>\<open>InternalError('State error')\<close> and the contents of the store are unchanged;
  when it returns one, the commit succeeds, the address holds the serialization of the
  new record whatever it held before, and every other address holds what it held.
  \<^verbatim>\<open>apply\<close> ends in this commit once the checks have passed.
\<close>

theorem set_state_object_commit:
  "(fst (state_set state [(address, SerializeToString env ob)]) = []
      \<longrightarrow> fst (set_state_object env state address ob) = Inl (InternalError ''State error'')
        \<and> contents (snd (set_state_object env state address ob)) = contents state)
   \<and> (fst (state_set state [(address, SerializeToString env ob)]) \<noteq> []
      \<longrightarrow> fst (set_state_object env state address ob) = Inr ()
        \<and> contents (snd (set_state_object env state address ob)) address
            = Some (SerializeToString env ob)
        \<and> (\<forall>other. other \<noteq> address
              \<longrightarrow> contents (snd (set_state_object env state address ob)) other
                  = contents state other))
   \<and> (unpack_transaction env txn = Inr (action, ob, signer)
        \<and> make_omi_address env ob action = Inr address
        \<and> get_state_object env state address action = Inr state_obj
        \<and> check_authorization state_obj action signer = Inr ()
      \<longrightarrow> apply_txn env txn state = set_state_object env state address ob)"
proof -
  have "apply_txn env txn state = set_state_object env state address ob"
    if "unpack_transaction env txn = Inr (action, ob, signer)"
      and "make_omi_address env ob action = Inr address"
      and "get_state_object env state address action = Inr state_obj"
      and "check_authorization state_obj action signer = Inr ()"
    using apply_txn_after_load[OF that(1,2,3)] that(4) by simp
  then show ?thesis
    by (simp add: set_state_object_result state_set_single)
qed

text \<open>
  A store that honours no write, and a store that holds \<open>old\<close> at the address of
  the identity being written.
\<close>

theorem set_state_object_commit_witness:
  "fst (state_set demo_locked_store
          [(demo_alice_address, SerializeToString demo_env (IndividualIdentity demo_alice))])
     = []
   \<and> fst (set_state_object demo_env demo_locked_store demo_alice_address
            (IndividualIdentity demo_alice))
       = Inl (InternalError ''State error'')
   \<and> fst (state_set (demo_store_with demo_alice_address ''old'')
          [(demo_alice_address, SerializeToString demo_env (IndividualIdentity demo_alice))])
       \<noteq> []
   \<and> contents (demo_store_with demo_alice_address ''old'') demo_alice_address = Some ''old''
   \<and> contents (snd (set_state_object demo_env (demo_store_with demo_alice_address ''old'')
                      demo_alice_address (IndividualIdentity demo_alice)))
         demo_alice_address
       = Some ''alice;K1''"
proof -
  have rejected: "fst (state_set demo_locked_store
          [(demo_alice_address, SerializeToString demo_env (IndividualIdentity demo_alice))])
     = []"
    by code_simp
  have written: "fst (state_set (demo_store_with demo_alice_address ''old'')
          [(demo_alice_address, SerializeToString demo_env (IndividualIdentity demo_alice))])
       \<noteq> []"
    by code_simp
  have old: "contents (demo_store_with demo_alice_address ''old'') demo_alice_address
       = Some ''old''"
    by (simp add: demo_store_with_def)
  have bytes: "SerializeToString demo_env (IndividualIdentity demo_alice) = ''alice;K1''"
    by code_simp
  from set_state_object_commit[where env = demo_env and state = demo_locked_store
      and address = demo_alice_address and ob = "IndividualIdentity demo_alice"] rejected
  have fail: "fst (set_state_object demo_env demo_locked_store demo_alice_address
            (IndividualIdentity demo_alice))
       = Inl (InternalError ''State error'')"
    by blast
  from set_state_object_commit[where env = demo_env
      and state = "demo_store_with demo_alice_address ''old''"
      and address = demo_alice_address and ob = "IndividualIdentity demo_alice"] written
  have "contents (snd (set_state_object demo_env (demo_store_with demo_alice_address ''old'')
                      demo_alice_address (IndividualIdentity demo_alice)))
         demo_alice_address
       = Some (SerializeToString demo_env (IndividualIdentity demo_alice))"
    by blast
  with rejected written old fail bytes show ?thesis
    by simp
qed


text \<open>
  C10, as the handler behaves. When the target address holds bytes on which the parse of
  the class the incoming action selects raises \<^verbatim>\<open>DecodeError\<close>, \<^verbatim>\<open>apply\<close> fails
  with \<^verbatim>\<open>InvalidTransaction('Invalid action')\<close> and returns the store as it was; this
  is the failure that record bytes of the transaction raising \<^verbatim>\<open>DecodeError\<close> produce
  too.
\<close>

theorem stored_bytes_decode_error:
  "(unpack_transaction env txn = Inr (action, ob, signer)
      \<and> make_omi_address env ob action = Inr address
      \<and> contents state address = Some d
      \<and> (action = WORK \<and> parse_Work env d = Inl DecodeError
         \<or> action = RECORDING \<and> parse_Recording env d = Inl DecodeError
         \<or> action = INDIVIDUAL \<and> parse_IndividualIdentity env d = Inl DecodeError
         \<or> action = ORGANIZATION \<and> parse_OrganizationalIdentity env d = Inl DecodeError)
    \<longrightarrow> apply_txn env txn state = (Inl (InvalidTransaction ''Invalid action''), state))
   \<and> (parse_TransactionHeader env (txn_header txn) = Inr hdr
      \<and> parse_OMITransactionPayload env (txn_payload txn) = Inr pl
      \<and> (payload_action pl = WORK \<and> parse_Work env (txn_data txn) = Inl DecodeError
         \<or> payload_action pl = RECORDING
            \<and> parse_Recording env (txn_data txn) = Inl DecodeError
         \<or> payload_action pl = INDIVIDUAL
            \<and> parse_IndividualIdentity env (txn_data txn) = Inl DecodeError
         \<or> payload_action pl = ORGANIZATION
            \<and> parse_OrganizationalIdentity env (txn_data txn) = Inl DecodeError)
    \<longrightarrow> apply_txn env txn state = (Inl (InvalidTransaction ''Invalid action''), state))"
proof -
  have bad: "parse_object env x act = Inl (InvalidTransaction ''Invalid action'')"
    if "act = WORK \<and> parse_Work env x = Inl DecodeError
         \<or> act = RECORDING \<and> parse_Recording env x = Inl DecodeError
         \<or> act = INDIVIDUAL \<and> parse_IndividualIdentity env x = Inl DecodeError
         \<or> act = ORGANIZATION \<and> parse_OrganizationalIdentity env x = Inl DecodeError"
    for x act
    using that by (auto simp: parse_object_def actions_distinct)
  have stored: "apply_txn env txn state = (Inl (InvalidTransaction ''Invalid action''), state)"
    if u: "unpack_transaction env txn = Inr (action, ob, signer)"
      and a: "make_omi_address env ob action = Inr address"
      and c: "contents state address = Some d"
      and p: "action = WORK \<and> parse_Work env d = Inl DecodeError
         \<or> action = RECORDING \<and> parse_Recording env d = Inl DecodeError
         \<or> action = INDIVIDUAL \<and> parse_IndividualIdentity env d = Inl DecodeError
         \<or> action = ORGANIZATION \<and> parse_OrganizationalIdentity env d = Inl DecodeError"
  proof -
    have "get_state_object env state address action
            = Inl (InvalidTransaction ''Invalid action'')"
      using c bad[OF p] by (simp add: get_state_object_contents)
    then show ?thesis
      using u a by (simp add: apply_txn_def)
  qed
  have incoming:
    "apply_txn env txn state = (Inl (InvalidTransaction ''Invalid action''), state)"
    if h: "parse_TransactionHeader env (txn_header txn) = Inr hdr"
      and q: "parse_OMITransactionPayload env (txn_payload txn) = Inr pl"
      and p: "payload_action pl = WORK \<and> parse_Work env (txn_data txn) = Inl DecodeError
         \<or> payload_action pl = RECORDING
            \<and> parse_Recording env (txn_data txn) = Inl DecodeError
         \<or> payload_action pl = INDIVIDUAL
            \<and> parse_IndividualIdentity env (txn_data txn) = Inl DecodeError
         \<or> payload_action pl = ORGANIZATION
            \<and> parse_OrganizationalIdentity env (txn_data txn) = Inl DecodeError"
  proof -
    have "unpack_transaction env txn = Inl (InvalidTransaction ''Invalid action'')"
      using h q bad[OF p] by (simp add: unpack_transaction_def)
    then show ?thesis
      by (simp add: apply_txn_def)
  qed
  show ?thesis
    using stored incoming by blast
qed

text \<open>The address of the work holds bytes with a single field.\<close>

theorem stored_bytes_decode_error_witness:
  "unpack_transaction demo_env
       (demo_txn ''K2'' ''n1'' WORK (demo_serialize_work demo_work_ok))
     = Inr (WORK, Work demo_work_ok, ''K2'')
   \<and> make_omi_address demo_env (Work demo_work_ok) WORK = Inr demo_song_address
   \<and> contents (demo_store_with demo_song_address ''garbage'') demo_song_address
       = Some ''garbage''
   \<and> parse_Work demo_env ''garbage'' = Inl DecodeError
   \<and> apply_txn demo_env
         (demo_txn ''K2'' ''n1'' WORK (demo_serialize_work demo_work_ok))
         (demo_store_with demo_song_address ''garbage'')
       = (Inl (InvalidTransaction ''Invalid action''),
          demo_store_with demo_song_address ''garbage'')"
proof -
  have c: "contents (demo_store_with demo_song_address ''garbage'') demo_song_address
       = Some ''garbage''"
    by (simp add: demo_store_with_def)
  have p: "parse_Work demo_env ''garbage'' = Inl DecodeError"
    by code_simp
  note bad = stored_bytes_decode_error[where env = demo_env
      and txn = "demo_txn ''K2'' ''n1'' WORK (demo_serialize_work demo_work_ok)"
      and state = "demo_store_with demo_song_address ''garbage''"
      and action = WORK and ob = "Work demo_work_ok" and signer = "''K2''"
      and address = demo_song_address and d = "''garbage''"]
  from bad demo_unpack_work demo_address_song c p
  have "apply_txn demo_env
         (demo_txn ''K2'' ''n1'' WORK (demo_serialize_work demo_work_ok))
         (demo_store_with demo_song_address ''garbage'')
       = (Inl (InvalidTransaction ''Invalid action''),
          demo_store_with demo_song_address ''garbage'')"
    by blast
  with demo_unpack_work demo_address_song c p show ?thesis
    by blast
qed

text \<open>
  Against the claim as stated: the address of the work holds bytes whose title is not
  UTF-8. They do not parse as a work, the parse raising \<^verbatim>\<open>UnicodeDecodeError\<close>, and
  \<^verbatim>\<open>apply\<close> ends with that exception, not with \<^verbatim>\<open>InvalidTransaction\<close>.
\<close>

theorem stored_bytes_not_utf8_counterexample:
  "unpack_transaction demo_env
       (demo_txn ''K2'' ''n1'' WORK (demo_serialize_work demo_work_ok))
     = Inr (WORK, Work demo_work_ok, ''K2'')
   \<and> make_omi_address demo_env (Work demo_work_ok) WORK = Inr demo_song_address
   \<and> contents (demo_store_with demo_song_address demo_not_utf8) demo_song_address
       = Some demo_not_utf8
   \<and> parse_Work demo_env demo_not_utf8 = Inl UnicodeDecodeError
   \<and> apply_txn demo_env
         (demo_txn ''K2'' ''n1'' WORK (demo_serialize_work demo_work_ok))
         (demo_store_with demo_song_address demo_not_utf8)
       = (Inl UnicodeDecodeError, demo_store_with demo_song_address demo_not_utf8)
   \<and> UnicodeDecodeError \<noteq> InvalidTransaction ''Invalid action''"
proof -
  have c: "contents (demo_store_with demo_song_address demo_not_utf8) demo_song_address
       = Some demo_not_utf8"
    by (simp add: demo_store_with_def)
  have p: "parse_Work demo_env demo_not_utf8 = Inl UnicodeDecodeError"
    by code_simp
  have "parse_object demo_env demo_not_utf8 WORK = Inl UnicodeDecodeError"
    using p by (simp add: parse_object_def)
  then have "get_state_object demo_env (demo_store_with demo_song_address demo_not_utf8)
        demo_song_address WORK = Inl UnicodeDecodeError"
    using c by (simp add: get_state_object_contents)
  then have run: "apply_txn demo_env
         (demo_txn ''K2'' ''n1'' WORK (demo_serialize_work demo_work_ok))
         (demo_store_with demo_song_address demo_not_utf8)
       = (Inl UnicodeDecodeError, demo_store_with demo_song_address demo_not_utf8)"
    using demo_unpack_work demo_address_song by (simp add: apply_txn_def)
  have "UnicodeDecodeError \<noteq> InvalidTransaction ''Invalid action''"
    by simp
  with demo_unpack_work demo_address_song c p run show ?thesis
    by blast
qed

text \<open>
  C4, as the handler behaves. For every signer: when the address derived for an
  \<^verbatim>\<open>IndividualIdentity\<close> record is unoccupied and the store honours the write, a
  SetIndividualIdentity transaction succeeds and the address then holds the
  serialization of the submitted record; where that serialization decodes back to the
  record, the stored \<^verbatim>\<open>registering_pubkey\<close> is the one the record carries. The
  signer is not written into the record and not compared with it.
\<close>

theorem first_writer_individual:
  assumes h: "parse_TransactionHeader env (txn_header txn) = Inr hdr"
    and q: "parse_OMITransactionPayload env (txn_payload txn) = Inr pl"
    and act: "payload_action pl = INDIVIDUAL"
    and p: "parse_IndividualIdentity env (txn_data txn) = Inr r"
    and a: "make_omi_address env (IndividualIdentity r) INDIVIDUAL = Inr address"
    and free: "contents state address = None"
    and ack: "accepts state address"
  shows "fst (apply_txn env txn state) = Inr ()
       \<and> contents (snd (apply_txn env txn state)) address
           = Some (serialize_IndividualIdentity env r)
       \<and> (parse_IndividualIdentity env (serialize_IndividualIdentity env r) = Inr r
          \<longrightarrow> map_option (map_sum id registering_pubkey \<circ> parse_IndividualIdentity env)
                (contents (snd (apply_txn env txn state)) address)
              = Some (Inr (registering_pubkey r)))"
proof -
  have u: "unpack_transaction env txn
             = Inr (INDIVIDUAL, IndividualIdentity r, signer_pubkey hdr)"
    using h q act p by (simp add: unpack_transaction_def parse_object_def actions_distinct)
  have g: "get_state_object env state address INDIVIDUAL = Inr None"
    using free by (simp add: get_state_object_contents)
  have "apply_txn env txn state
          = set_state_object env state address (IndividualIdentity r)"
    using apply_txn_after_load[OF u a g] by (simp add: check_authorization_def)
  then show ?thesis
    using ack by (simp add: set_state_object_result)
qed

text \<open>
  The identity \<open>alice\<close>, carrying the key \<open>K1\<close>, submitted to the empty store
  in a transaction signed by \<open>K2\<close>.
\<close>

theorem first_writer_individual_witness:
  "parse_TransactionHeader demo_env
       (txn_header (demo_txn ''K2'' ''n1'' INDIVIDUAL (demo_serialize_identity demo_alice)))
     = Inr \<lparr>signer_pubkey = ''K2''\<rparr>
   \<and> parse_OMITransactionPayload demo_env
       (txn_payload (demo_txn ''K2'' ''n1'' INDIVIDUAL (demo_serialize_identity demo_alice)))
     = Inr \<lparr>payload_action = INDIVIDUAL\<rparr>
   \<and> parse_IndividualIdentity demo_env
       (txn_data (demo_txn ''K2'' ''n1'' INDIVIDUAL (demo_serialize_identity demo_alice)))
     = Inr demo_alice
   \<and> make_omi_address demo_env (IndividualIdentity demo_alice) INDIVIDUAL
     = Inr demo_alice_address
   \<and> contents demo_store demo_alice_address = None
   \<and> accepts demo_store demo_alice_address
   \<and> parse_IndividualIdentity demo_env (serialize_IndividualIdentity demo_env demo_alice)
     = Inr demo_alice
   \<and> fst (apply_txn demo_env
            (demo_txn ''K2'' ''n1'' INDIVIDUAL (demo_serialize_identity demo_alice))
            demo_store)
     = Inr ()
   \<and> map_option (map_sum id registering_pubkey \<circ> parse_IndividualIdentity demo_env)
       (contents
          (snd (apply_txn demo_env
                  (demo_txn ''K2'' ''n1'' INDIVIDUAL (demo_serialize_identity demo_alice))
                  demo_store))
          demo_alice_address)
     = Some (Inr (registering_pubkey demo_alice))"
proof -
  have h: "parse_TransactionHeader demo_env
       (txn_header (demo_txn ''K2'' ''n1'' INDIVIDUAL (demo_serialize_identity demo_alice)))
     = Inr \<lparr>signer_pubkey = ''K2''\<rparr>"
    by code_simp
  have q: "parse_OMITransactionPayload demo_env
       (txn_payload (demo_txn ''K2'' ''n1'' INDIVIDUAL (demo_serialize_identity demo_alice)))
     = Inr \<lparr>payload_action = INDIVIDUAL\<rparr>"
    by code_simp
  have act: "payload_action \<lparr>payload_action = INDIVIDUAL\<rparr> = INDIVIDUAL"
    by simp
  have p: "parse_IndividualIdentity demo_env
       (txn_data (demo_txn ''K2'' ''n1'' INDIVIDUAL (demo_serialize_identity demo_alice)))
     = Inr demo_alice"
    by code_simp
  have free: "contents demo_store demo_alice_address = None"
    by (simp add: demo_store_def)
  have ack: "accepts demo_store demo_alice_address"
    by (simp add: demo_store_def)
  have rt: "parse_IndividualIdentity demo_env (serialize_IndividualIdentity demo_env demo_alice)
     = Inr demo_alice"
    by code_simp
  from first_writer_individual[OF h q act p demo_address_alice free ack] rt
  show ?thesis
    using h q p demo_address_alice free ack by blast
qed

text \<open>
  The same run against the claim as stated: the transaction succeeds, and the stored
  \<^verbatim>\<open>registering_pubkey\<close> is \<open>K1\<close> while the signer is \<open>K2\<close>.
\<close>

theorem first_writer_counterexample:
  "unpack_transaction demo_env
       (demo_txn ''K2'' ''n1'' INDIVIDUAL (demo_serialize_identity demo_alice))
     = Inr (INDIVIDUAL, IndividualIdentity demo_alice, ''K2'')
   \<and> make_omi_address demo_env (IndividualIdentity demo_alice) INDIVIDUAL
     = Inr demo_alice_address
   \<and> contents demo_store demo_alice_address = None
   \<and> fst (apply_txn demo_env
            (demo_txn ''K2'' ''n1'' INDIVIDUAL (demo_serialize_identity demo_alice))
            demo_store)
     = Inr ()
   \<and> map_option (map_sum id registering_pubkey \<circ> parse_IndividualIdentity demo_env)
       (contents
          (snd (apply_txn demo_env
                  (demo_txn ''K2'' ''n1'' INDIVIDUAL (demo_serialize_identity demo_alice))
                  demo_store))
          demo_alice_address)
     = Some (Inr ''K1'')
   \<and> ''K1'' \<noteq> ''K2''"
proof -
  have free: "contents demo_store demo_alice_address = None"
    by (simp add: demo_store_def)
  have ok: "fst (apply_txn demo_env
            (demo_txn ''K2'' ''n1'' INDIVIDUAL (demo_serialize_identity demo_alice))
            demo_store)
     = Inr ()"
    by code_simp
  have stored: "map_option (map_sum id registering_pubkey \<circ> parse_IndividualIdentity demo_env)
       (contents
          (snd (apply_txn demo_env
                  (demo_txn ''K2'' ''n1'' INDIVIDUAL (demo_serialize_identity demo_alice))
                  demo_store))
          demo_alice_address)
     = Some (Inr ''K1'')"
    by code_simp
  have "''K1'' \<noteq> ''K2''"
    by simp
  with demo_unpack_alice demo_address_alice free ok stored show ?thesis
    by blast
qed

end
